theory Spec2Isabelle
  imports Complex_Main "HOL-Library.AList"
begin

section \<open>Data model\<close>

text \<open>
  A shallow embedding of \<^verbatim>\<open>app.py\<close>: \<^verbatim>\<open>process_data\<close> (the two source indices and
  their merge by date), \<^verbatim>\<open>plot_pr_evolution\<close> (range filter, rolling mean, budget curve,
  colour classification, recent-window averages) and \<^verbatim>\<open>main\<close>.

  Timestamps. Every date that reaches the merge is the midnight timestamp parsed from a
  file name, so a date is modelled by the proleptic Gregorian ordinal of its day (an
  integer; comparison is the order of days, \<^verbatim>\<open>timedelta(days=n)\<close> is the integer n).

  Floats. A column value is either a number or NaN. Numbers are idealised as reals:
  rounding of IEEE arithmetic is not modelled, and neither are the infinities. Every
  comparison with NaN is false, as in Python.
\<close>

type_synonym date = int

datatype pyfloat = Fin real | NaN

datatype error = KeyError | ValueError

datatype color = navy | lightblue | orange | brown

fun fl_less :: "pyfloat \<Rightarrow> pyfloat \<Rightarrow> bool" where
  "fl_less (Fin a) (Fin b) = (a < b)"
| "fl_less _ _ = False"

fun fl_le :: "pyfloat \<Rightarrow> pyfloat \<Rightarrow> bool" where
  "fl_le (Fin a) (Fin b) = (a \<le> b)"
| "fl_le _ _ = False"

subsection \<open>Calendar dates\<close>

text \<open>
  \<^verbatim>\<open>pd.to_datetime('Y-M-D')\<close> on a valid calendar day, as the day's ordinal
  (the computation of Python's \<^verbatim>\<open>date.toordinal\<close>).
\<close>

definition is_leap :: "int \<Rightarrow> bool" where
  "is_leap y = (y mod 4 = 0 \<and> (y mod 100 \<noteq> 0 \<or> y mod 400 = 0))"

definition days_before_year :: "int \<Rightarrow> int" where
  "days_before_year year =
     (let y = year - 1 in y * 365 + y div 4 - y div 100 + y div 400)"

definition days_before_month :: "int \<Rightarrow> int \<Rightarrow> int" where
  "days_before_month year month =
     [0, 0, 31, 59, 90, 120, 151, 181, 212, 243, 273, 304, 334] ! nat month
       + (if month > 2 \<and> is_leap year then 1 else 0)"

definition to_datetime :: "int \<Rightarrow> int \<Rightarrow> int \<Rightarrow> date" where
  "to_datetime year month day = days_before_year year + days_before_month year month + day"

subsection \<open>Tables\<close>

text \<open>A row of the combined table (columns Date, GHI, PR); a table is its list of rows.\<close>

record row =
  Date :: date
  GHI :: pyfloat
  PR :: pyfloat

type_synonym table = "row list"

text \<open>
  A source index (\<^verbatim>\<open>ghi_dict\<close>, \<^verbatim>\<open>pr_dict\<close>): a Python dict from the date of the file name to
  the selected row (its Date cell and its value cell), in insertion order.
\<close>

type_synonym source_index = "(date \<times> (date \<times> pyfloat)) list"

text \<open>
  The table after the derived columns are added (PR_MA30, Budget_PR, Color), and what
  \<^verbatim>\<open>plot_pr_evolution\<close> hands to the plotting library: the rows it draws and the
  text box of recent-window averages (window length in days, average PR).
\<close>

record analysis_row = row +
  PR_MA30 :: pyfloat
  Budget_PR :: real
  Color :: color

record chart =
  points :: "analysis_row list"
  text_box :: "(int \<times> pyfloat) list"

text \<open>
  The two output files of a run, \<^verbatim>\<open>--output_csv\<close> and \<^verbatim>\<open>--output_plot\<close>: what has been
  written to each, if anything.
\<close>

record files =
  output_csv :: "table option"
  output_plot :: "chart option"

text \<open>
  A csv file as the reading loop sees it: the date parsed from its base name (None when
  \<^verbatim>\<open>pd.to_datetime\<close> raises), its column names after \<^verbatim>\<open>strip().capitalize()\<close>, its Date
  column after \<^verbatim>\<open>pd.to_datetime(errors='coerce')\<close> (None is NaT) and its value column.
  The two columns matter only when the file has them.
\<close>

record csv_file =
  name_date :: "date option"
  columns :: "string list"
  date_cells :: "date option list"
  value_cells :: "pyfloat list"

section \<open>The analysis: \<^verbatim>\<open>plot_pr_evolution\<close>\<close>

subsection \<open>Rolling mean\<close>

text \<open>
  \<^verbatim>\<open>Series.mean()\<close> skips NaN and is NaN when nothing is left.
  \<^verbatim>\<open>Series.rolling(window=w, min_periods=mp).mean()\<close>: at row i the window is the last w
  rows up to and including i; the result is the mean of the window's non-NaN values when
  there are at least mp of them, and NaN otherwise.
\<close>

fun observations :: "pyfloat list \<Rightarrow> real list" where
  "observations [] = []"
| "observations (Fin x # vs) = x # observations vs"
| "observations (NaN # vs) = observations vs"

definition mean_obs :: "real list \<Rightarrow> pyfloat" where
  "mean_obs obs = (if obs = [] then NaN else Fin (sum_list obs / real (length obs)))"

definition series_mean :: "pyfloat list \<Rightarrow> pyfloat" where
  "series_mean vs = mean_obs (observations vs)"

definition rolling_window :: "nat \<Rightarrow> 'a list \<Rightarrow> nat \<Rightarrow> 'a list" where
  "rolling_window w vs i = drop (Suc i - w) (take (Suc i) vs)"

definition rolling_mean :: "nat \<Rightarrow> nat \<Rightarrow> pyfloat list \<Rightarrow> pyfloat list" where
  "rolling_mean w min_periods vs =
     map (\<lambda>i. let obs = observations (rolling_window w vs i)
              in if length obs < min_periods then NaN else mean_obs obs)
         [0..<length vs]"

subsection \<open>Budget curve\<close>

text \<open>
  Lines 85 to 90. The column starts at 73.9 in every row; each year of
  \<^verbatim>\<open>range(2019, 2023)\<close> then overwrites the rows selected by its mask.
\<close>

definition budget_mask :: "int \<Rightarrow> date \<Rightarrow> bool" where
  "budget_mask year d =
     (to_datetime year 7 1 \<le> d \<and> d \<le> to_datetime (year + 1) 6 30)"

definition budget_value :: "int \<Rightarrow> real" where
  "budget_value year = 73.9 * 0.992 ^ nat (year - 2019)"

definition budget_assign :: "date list \<Rightarrow> int \<Rightarrow> real list \<Rightarrow> real list" where
  "budget_assign dates year col =
     map (\<lambda>(d, b). if budget_mask year d then budget_value year else b) (zip dates col)"

definition budget_column :: "date list \<Rightarrow> real list" where
  "budget_column dates =
     fold (budget_assign dates) [2019, 2020, 2021, 2022] (replicate (length dates) 73.9)"

subsection \<open>Colour classification\<close>

text \<open>\<^verbatim>\<open>get_color\<close>, lines 92 to 100: an if/elif chain of float comparisons.\<close>

definition get_color :: "pyfloat \<Rightarrow> color" where
  "get_color ghi =
     (if fl_less ghi (Fin 2) then navy
      else if fl_le (Fin 2) ghi \<and> fl_less ghi (Fin 4) then lightblue
      else if fl_le (Fin 4) ghi \<and> fl_less ghi (Fin 6) then orange
      else brown)"

text \<open>The Color column, line 102: \<^verbatim>\<open>df['GHI'].apply(get_color)\<close>.\<close>

definition color_column :: "pyfloat list \<Rightarrow> color list" where
  "color_column ghis = map get_color ghis"

subsection \<open>Recent-window averages\<close>

text \<open>Lines 110 to 116, for one period; the value that is formatted into the text box.\<close>

definition recent_data :: "analysis_row list \<Rightarrow> date \<Rightarrow> int \<Rightarrow> analysis_row list" where
  "recent_data df last_date period = filter (\<lambda>r. last_date - period < Date r) df"

definition avg_pr :: "analysis_row list \<Rightarrow> pyfloat" where
  "avg_pr recent = (if recent = [] then Fin 0 else series_mean (map PR recent))"

subsection \<open>The whole function\<close>

text \<open>
  \<^verbatim>\<open>plot_pr_evolution\<close> with its two dates already parsed. It raises ValueError on an
  empty range (line 81) before anything is drawn; otherwise it computes the columns and
  the text box, hands them to the plotting library, whose calls are taken as total, and
  \<^verbatim>\<open>savefig\<close> writes the figure to the output file (line 127).
\<close>

definition add_columns ::
  "table \<Rightarrow> pyfloat list \<Rightarrow> real list \<Rightarrow> color list \<Rightarrow> analysis_row list" where
  "add_columns df ma budget colors =
     map (\<lambda>(r, m, b, c). \<lparr>Date = Date r, GHI = GHI r, PR = PR r,
                           PR_MA30 = m, Budget_PR = b, Color = c\<rparr>)
         (zip df (zip ma (zip budget colors)))"

definition plot_pr_evolution ::
  "table \<Rightarrow> date \<Rightarrow> date \<Rightarrow> files \<Rightarrow> (error + unit) \<times> files" where
  "plot_pr_evolution df0 start_date end_date fs =
     (let df = filter (\<lambda>r. start_date \<le> Date r \<and> Date r \<le> end_date) df0 in
      if df = [] then (Inl ValueError, fs)
      else
        let df = add_columns df (rolling_mean 30 1 (map PR df))
                   (budget_column (map Date df)) (color_column (map GHI df));
            last_date = Max (set (map Date df));
            text = map (\<lambda>period. (period, avg_pr (recent_data df last_date period)))
                     [7, 30, 60]
        in (Inr (), fs\<lparr>output_plot := Some \<lparr>points = df, text_box = text\<rparr>\<rparr>))"

section \<open>Reading and merging: \<^verbatim>\<open>process_data\<close>\<close>

subsection \<open>The source indices\<close>

text \<open>
  One loop body of lines 25 to 40 (GHI) and 44 to 59 (PR); the two loops differ in the
  name of the value column only. A file whose name is no date is skipped, and so is a
  file without a Date column or without the value column; the first row whose Date cell
  equals the date of the file name, if there is one, is stored under that date, replacing
  an earlier entry.
\<close>

definition read_file :: "string \<Rightarrow> csv_file \<Rightarrow> source_index \<Rightarrow> source_index" where
  "read_file value_column f index =
     (case name_date f of
        None \<Rightarrow> index
      | Some expected_date \<Rightarrow>
          if ''Date'' \<notin> set (columns f) \<or> value_column \<notin> set (columns f) then index
          else
            (case filter (\<lambda>(d, v). d = Some expected_date)
                    (zip (date_cells f) (value_cells f)) of
               [] \<Rightarrow> index
             | (d, v) # _ \<Rightarrow> AList.update expected_date (expected_date, v) index))"

definition read_files :: "string \<Rightarrow> csv_file list \<Rightarrow> source_index" where
  "read_files value_column fs = fold (read_file value_column) fs []"

subsection \<open>Merge by date\<close>

text \<open>
  Lines 62 to 66: one row for each date of \<^verbatim>\<open>sorted(set(ghi_dict.keys()) & set(pr_dict.keys()))\<close>.
  A lookup of a missing key raises KeyError.
\<close>

fun merged_rows :: "source_index \<Rightarrow> source_index \<Rightarrow> date list \<Rightarrow> error + table" where
  "merged_rows ghi_dict pr_dict [] = Inr []"
| "merged_rows ghi_dict pr_dict (d # ds) =
     (case map_of ghi_dict d of
        None \<Rightarrow> Inl KeyError
      | Some ghi_row \<Rightarrow>
          (case map_of pr_dict d of
             None \<Rightarrow> Inl KeyError
           | Some pr_row \<Rightarrow>
               (case merged_rows ghi_dict pr_dict ds of
                  Inl e \<Rightarrow> Inl e
                | Inr rows \<Rightarrow> Inr (\<lparr>Date = d, GHI = snd ghi_row, PR = snd pr_row\<rparr> # rows))))"

text \<open>
  Lines 62 to 69. \<^verbatim>\<open>pd.DataFrame([])\<close> has no columns, so \<^verbatim>\<open>sort_values('Date')\<close> raises
  KeyError when no date is common to the two indices.
\<close>

definition merge_by_date :: "source_index \<Rightarrow> source_index \<Rightarrow> error + table" where
  "merge_by_date ghi_dict pr_dict =
     (case merged_rows ghi_dict pr_dict
             (sorted_list_of_set (set (map fst ghi_dict) \<inter> set (map fst pr_dict))) of
        Inl e \<Rightarrow> Inl e
      | Inr rows \<Rightarrow> if rows = [] then Inl KeyError else Inr (sort_key Date rows))"

subsection \<open>The whole function\<close>

text \<open>
  \<^verbatim>\<open>process_data\<close> on the files found under the two directories: it builds the two
  indices, merges them, writes the combined table (line 70) and returns it.
\<close>

definition process_data ::
  "csv_file list \<Rightarrow> csv_file list \<Rightarrow> files \<Rightarrow> (error + table) \<times> files" where
  "process_data pr_files ghi_files fs =
     (let ghi_dict = read_files ''Ghi'' ghi_files;
          pr_dict = read_files ''Pr'' pr_files
      in case merge_by_date ghi_dict pr_dict of
           Inl e \<Rightarrow> (Inl e, fs)
         | Inr combined_df \<Rightarrow> (Inr combined_df, fs\<lparr>output_csv := Some combined_df\<rparr>))"

section \<open>The program: \<^verbatim>\<open>main\<close>\<close>

text \<open>
  Lines 143 and 145: the table is processed and written, then plotted. An exception of
  either call ends the run; nothing catches it.
\<close>

definition main ::
  "csv_file list \<Rightarrow> csv_file list \<Rightarrow> date \<Rightarrow> date \<Rightarrow> files \<Rightarrow> (error + unit) \<times> files" where
  "main pr_files ghi_files start_date end_date fs =
     (case process_data pr_files ghi_files fs of
        (Inl e, fs') \<Rightarrow> (Inl e, fs')
      | (Inr df, fs') \<Rightarrow> plot_pr_evolution df start_date end_date fs')"

section \<open>Auxiliary definitions\<close>

text \<open>
  Names for two sub-expressions of \<^verbatim>\<open>plot_pr_evolution\<close>: the rows of the requested range
  (lines 77 and 78) and the table with its three derived columns (lines 83 to 102).
\<close>

definition in_range :: "table \<Rightarrow> date \<Rightarrow> date \<Rightarrow> table" where
  "in_range df0 start_date end_date =
     filter (\<lambda>r. start_date \<le> Date r \<and> Date r \<le> end_date) df0"

definition with_columns :: "table \<Rightarrow> analysis_row list" where
  "with_columns df =
     add_columns df (rolling_mean 30 1 (map PR df)) (budget_column (map Date df))
       (color_column (map GHI df))"

text \<open>The figure that is saved for the rows of the requested range (lines 104 to 127).\<close>

definition figure :: "table \<Rightarrow> chart" where
  "figure df =
     \<lparr>points = with_columns df,
      text_box = map (\<lambda>period. (period,
                   avg_pr (recent_data (with_columns df) (Max (set (map Date (with_columns df))))
                     period)))
                 [7, 30, 60]\<rparr>"

text \<open>The budget of one row: the successive assignments of the loop, seen from a date.\<close>

definition budget_at :: "date \<Rightarrow> real" where
  "budget_at d = fold (\<lambda>year b. if budget_mask year d then budget_value year else b)
                   [2019, 2020, 2021, 2022] 73.9"


section \<open>Auxiliary facts\<close>

lemma to_datetime_values:
  "to_datetime 2019 7 1 = 737241" "to_datetime 2020 6 30 = 737606"
  "to_datetime 2020 7 1 = 737607" "to_datetime 2021 6 30 = 737971"
  "to_datetime 2021 7 1 = 737972" "to_datetime 2022 6 30 = 738336"
  "to_datetime 2022 7 1 = 738337" "to_datetime 2023 6 30 = 738701"
  "to_datetime 2020 1 1 = 737425" "to_datetime 2023 7 1 = 738702"
  "to_datetime 2021 1 1 = 737791" "to_datetime 2022 3 24 = 738238"
  "to_datetime 2023 12 31 = 738885" "to_datetime 2022 1 1 = 738156"
  "to_datetime 2022 12 31 = 738520"
  by (simp_all add: to_datetime_def days_before_year_def days_before_month_def is_leap_def)

lemma budget_years: "(Y::int) \<in> {2019..2022} \<longleftrightarrow> Y = 2019 \<or> Y = 2020 \<or> Y = 2021 \<or> Y = 2022"
  by auto

lemma length_budget_assign:
  "length col = length dates \<Longrightarrow> length (budget_assign dates y col) = length dates"
  by (simp add: budget_assign_def)

lemma length_budget_column: "length (budget_column dates) = length dates"
  by (simp add: budget_column_def length_budget_assign)

lemma fold_budget_assign_nth:
  "length col = length dates \<Longrightarrow> i < length dates \<Longrightarrow>
   fold (budget_assign dates) ys col ! i =
   fold (\<lambda>year b. if budget_mask year (dates ! i) then budget_value year else b) ys (col ! i)"
proof (induction ys arbitrary: col)
  case Nil
  then show ?case by simp
next
  case (Cons y ys)
  have len: "length (budget_assign dates y col) = length dates"
    using Cons.prems by (simp add: budget_assign_def)
  have nth: "budget_assign dates y col ! i =
      (if budget_mask y (dates ! i) then budget_value y else col ! i)"
    using Cons.prems by (simp add: budget_assign_def)
  show ?case
    using Cons.IH [OF len Cons.prems(2)] nth by simp
qed

lemma budget_column_nth:
  "i < length dates \<Longrightarrow> budget_column dates ! i = budget_at (dates ! i)"
  unfolding budget_column_def budget_at_def
  by (subst fold_budget_assign_nth) simp_all

lemma budget_at_period:
  assumes "Y \<in> {2019..2022}" and "budget_mask Y d"
  shows "budget_at d = budget_value Y"
proof -
  from assms(1) have "Y = 2019 \<or> Y = 2020 \<or> Y = 2021 \<or> Y = 2022"
    by (simp only: budget_years)
  then show ?thesis
    using assms(2)
    by (elim disjE) (simp_all add: budget_at_def budget_mask_def to_datetime_values)
qed

lemma budget_at_uncovered:
  "\<forall>Y \<in> {2019..2022}. \<not> budget_mask Y d \<Longrightarrow> budget_at d = 73.9"
  by (simp add: budget_at_def)

lemma length_rolling_mean: "length (rolling_mean w mp vs) = length vs"
  by (simp add: rolling_mean_def)

lemma length_color_column: "length (color_column ghis) = length ghis"
  by (simp add: color_column_def)

lemma length_add_columns:
  "length ma = length df \<Longrightarrow> length budget = length df \<Longrightarrow> length colors = length df \<Longrightarrow>
   length (add_columns df ma budget colors) = length df"
  by (simp add: add_columns_def)

lemma add_columns_nth:
  "length ma = length df \<Longrightarrow> length budget = length df \<Longrightarrow> length colors = length df \<Longrightarrow>
   i < length df \<Longrightarrow>
   add_columns df ma budget colors ! i =
     \<lparr>Date = Date (df ! i), GHI = GHI (df ! i), PR = PR (df ! i),
      PR_MA30 = ma ! i, Budget_PR = budget ! i, Color = colors ! i\<rparr>"
  by (simp add: add_columns_def)

lemma plot_pr_evolution_Inr:
  "plot_pr_evolution df0 s e fs = (Inr u, fs') \<longleftrightarrow>
     in_range df0 s e \<noteq> [] \<and> fs' = fs\<lparr>output_plot := Some (figure (in_range df0 s e))\<rparr>"
  by (auto simp add: plot_pr_evolution_def in_range_def with_columns_def figure_def Let_def)

lemma plot_pr_evolution_Inl:
  "plot_pr_evolution df0 s e fs = (Inl err, fs') \<longleftrightarrow>
     in_range df0 s e = [] \<and> err = ValueError \<and> fs' = fs"
  by (auto simp add: plot_pr_evolution_def in_range_def Let_def)

lemma plot_pr_evolution_points:
  assumes "plot_pr_evolution df0 s e fs = (Inr u, fs')" and "output_plot fs' = Some ch"
  shows "ch = figure (in_range df0 s e)"
  using assms by (simp add: plot_pr_evolution_Inr)

lemma length_with_columns: "length (with_columns df) = length df"
  by (simp add: with_columns_def length_add_columns length_rolling_mean length_budget_column
      length_color_column)

lemma with_columns_nth:
  "i < length df \<Longrightarrow>
   with_columns df ! i =
     \<lparr>Date = Date (df ! i), GHI = GHI (df ! i), PR = PR (df ! i),
      PR_MA30 = rolling_mean 30 1 (map PR df) ! i,
      Budget_PR = budget_at (Date (df ! i)),
      Color = get_color (GHI (df ! i))\<rparr>"
  by (simp add: with_columns_def add_columns_nth length_rolling_mean length_budget_column
      length_color_column budget_column_nth color_column_def)

lemma points_nth:
  assumes "plot_pr_evolution df0 s e fs = (Inr u, fs')" and "output_plot fs' = Some ch"
    and "r \<in> set (points ch)"
  obtains i where "i < length (in_range df0 s e)" and "r = with_columns (in_range df0 s e) ! i"
proof -
  have "points ch = with_columns (in_range df0 s e)"
    using plot_pr_evolution_points [OF assms(1,2)] by (simp add: figure_def)
  with assms(3) show thesis
    using that by (auto simp add: in_set_conv_nth length_with_columns)
qed

lemma points_budget:
  assumes "plot_pr_evolution df0 s e fs = (Inr u, fs')" and "output_plot fs' = Some ch"
    and "r \<in> set (points ch)"
  shows "Budget_PR r = budget_at (Date r)"
proof -
  from assms obtain i where i: "i < length (in_range df0 s e)"
    and r: "r = with_columns (in_range df0 s e) ! i"
    by (rule points_nth)
  show ?thesis
    by (simp add: r with_columns_nth [OF i])
qed

text \<open>Evaluation of the whole function on a concrete table.\<close>

lemmas plot_eval =
  plot_pr_evolution_def add_columns_def rolling_mean_def rolling_window_def mean_obs_def
  budget_column_def budget_assign_def budget_mask_def budget_value_def color_column_def
  get_color_def recent_data_def avg_pr_def series_mean_def Let_def to_datetime_values

lemma observations_Fin: "observations (map Fin ys) = ys"
  by (induction ys) simp_all

lemma observations_Nil_iff: "observations vs = [] \<longleftrightarrow> (\<forall>v \<in> set vs. v = NaN)"
  by (induction vs rule: observations.induct) simp_all

lemma length_rolling_window:
  "i < length vs \<Longrightarrow> length (rolling_window w vs i) = min w (Suc i)"
  by (auto simp add: rolling_window_def)

lemma rolling_window_nths:
  assumes "i < length vs"
  shows "rolling_window w vs i = map ((!) vs) [Suc i - w..<Suc i]"
proof (rule nth_equalityI)
  show "length (rolling_window w vs i) = length (map ((!) vs) [Suc i - w..<Suc i])"
    using assms by (auto simp add: rolling_window_def)
next
  fix j
  assume "j < length (rolling_window w vs i)"
  then have j: "Suc i - w + j < Suc i"
    using assms by (auto simp add: rolling_window_def)
  then show "rolling_window w vs i ! j = map ((!) vs) [Suc i - w..<Suc i] ! j"
    using assms by (simp add: rolling_window_def del: upt_Suc)
qed

lemma rolling_mean_nth:
  "i < length vs \<Longrightarrow>
   rolling_mean w mp vs ! i =
     (if length (observations (rolling_window w vs i)) < mp then NaN
      else mean_obs (observations (rolling_window w vs i)))"
  by (simp add: rolling_mean_def Let_def)

lemma map_PR_with_columns: "map PR (with_columns df) = map PR df"
  by (rule nth_equalityI) (simp_all add: length_with_columns with_columns_nth)

lemma map_Date_with_columns: "map Date (with_columns df) = map Date df"
  by (rule nth_equalityI) (simp_all add: length_with_columns with_columns_nth)

lemma with_columns_Nil_iff: "with_columns df = [] \<longleftrightarrow> df = []"
  using length_with_columns [of df] by (metis length_0_conv)

lemma PR_MA30_with_columns:
  "i < length df \<Longrightarrow>
   PR_MA30 (with_columns df ! i) = rolling_mean 30 1 (map PR (with_columns df)) ! i"
  by (simp add: map_PR_with_columns with_columns_nth)

lemma figure_text_box:
  "text_box (figure df) =
     map (\<lambda>period. (period,
            avg_pr (filter (\<lambda>r. Max (set (map Date (points (figure df)))) - period < Date r)
                      (points (figure df)))))
         [7, 30, 60]"
  by (simp add: figure_def recent_data_def)

lemma recent_data_last:
  assumes "df \<noteq> []" and "0 < period"
  shows "filter (\<lambda>r. Max (set (map Date df)) - period < Date r) df \<noteq> []"
proof -
  have "Max (set (map Date df)) \<in> set (map Date df)"
    using assms(1) by (intro Max_in) simp_all
  then obtain r where "r \<in> set df" and "Date r = Max (set (map Date df))"
    by auto
  with assms(2) have "r \<in> set (filter (\<lambda>r. Max (set (map Date df)) - period < Date r) df)"
    by simp
  then show ?thesis
    by (metis empty_iff empty_set)
qed

lemma avg_pr_numbers:
  "rows \<noteq> [] \<Longrightarrow> map PR rows = map Fin ys \<Longrightarrow>
   avg_pr rows = Fin (sum_list ys / real (length ys))"
  by (auto simp add: avg_pr_def series_mean_def mean_obs_def observations_Fin)

lemma merged_rows_error: "merged_rows g p ds = Inl e \<Longrightarrow> e = KeyError"
  by (induction ds) (auto split: option.splits sum.splits)

lemma merged_rows_dates:
  "\<forall>d \<in> set ds. map_of g d \<noteq> None \<and> map_of p d \<noteq> None \<Longrightarrow>
   \<exists>rows. merged_rows g p ds = Inr rows \<and> map Date rows = ds"
  by (induction ds) auto

lemma map_of_keys: "map_of al d \<noteq> None \<longleftrightarrow> d \<in> set (map fst al)"
  by (simp add: map_of_eq_None_iff)

lemma merge_by_date_error: "merge_by_date g p = Inl e \<Longrightarrow> e = KeyError"
  by (auto simp add: merge_by_date_def dest: merged_rows_error split: sum.splits if_splits)

lemma merge_by_date_dates:
  "(set (map fst g) \<inter> set (map fst p) = {} \<longrightarrow> merge_by_date g p = Inl KeyError) \<and>
   (set (map fst g) \<inter> set (map fst p) \<noteq> {} \<longrightarrow>
      (\<exists>tbl. merge_by_date g p = Inr tbl \<and>
         map Date tbl = sorted_list_of_set (set (map fst g) \<inter> set (map fst p))))"
proof -
  let ?K = "set (map fst g) \<inter> set (map fst p)"
  let ?ds = "sorted_list_of_set ?K"
  have fin: "finite ?K" by simp
  have "set ?ds = ?K"
    using fin by simp
  then have "\<forall>d \<in> set ?ds. map_of g d \<noteq> None \<and> map_of p d \<noteq> None"
    by (simp only: map_of_keys) blast
  then obtain rows where rows: "merged_rows g p ?ds = Inr rows" and dates: "map Date rows = ?ds"
    using merged_rows_dates by blast
  have "sorted (map Date rows)"
    by (simp add: dates)
  then have sort: "sort_key Date rows = rows"
    by (rule sort_key_id_if_sorted)
  have nil: "rows = [] \<longleftrightarrow> ?K = {}"
    using dates fin by (metis map_is_Nil_conv sorted_list_of_set_eq_Nil_iff)
  show ?thesis
    using rows dates sort nil by (simp add: merge_by_date_def)
qed

lemma main_error:
  assumes "main pr_files ghi_files s e fs = (Inl err, fs')"
  shows "(err = KeyError \<and> fs' = fs \<and> fst (process_data pr_files ghi_files fs) = Inl KeyError) \<or>
         (err = ValueError \<and>
          (\<exists>df. process_data pr_files ghi_files fs = (Inr df, fs\<lparr>output_csv := Some df\<rparr>) \<and>
                fs' = fs\<lparr>output_csv := Some df\<rparr> \<and> in_range df s e = []))"
proof (cases "merge_by_date (read_files ''Ghi'' ghi_files) (read_files ''Pr'' pr_files)")
  case (Inl x)
  then have "x = KeyError"
    by (rule merge_by_date_error)
  with Inl assms show ?thesis
    by (auto simp add: main_def process_data_def Let_def)
next
  case (Inr df)
  then have pd: "process_data pr_files ghi_files fs = (Inr df, fs\<lparr>output_csv := Some df\<rparr>)"
    by (simp add: process_data_def Let_def)
  with assms have "plot_pr_evolution df s e (fs\<lparr>output_csv := Some df\<rparr>) = (Inl err, fs')"
    by (simp add: main_def)
  then have "in_range df s e = [] \<and> err = ValueError \<and> fs' = fs\<lparr>output_csv := Some df\<rparr>"
    by (simp only: plot_pr_evolution_Inl)
  with pd show ?thesis
    by simp
qed

text \<open>Evaluation of the reading loop and of the merge on concrete files.\<close>

lemmas read_eval =
  main_def process_data_def read_files_def read_file_def merge_by_date_def
  sorted_list_of_set_sort_remdups Let_def

section \<open>Properties of the colour classification\<close>

text \<open>
  C8. For every row the colour of a numeric GHI value g is navy when g < 2, lightblue when
  2 <= g < 4, orange when 4 <= g < 6 and brown when g >= 6, with exact boundaries:
  1.999 is navy, 2.0 lightblue, 3.999 lightblue, 4.0 orange, 5.999 orange, 6.0 brown.
\<close>

theorem get_color_bins:
  "(g < 2 \<longrightarrow> get_color (Fin g) = navy) \<and>
   (2 \<le> g \<and> g < 4 \<longrightarrow> get_color (Fin g) = lightblue) \<and>
   (4 \<le> g \<and> g < 6 \<longrightarrow> get_color (Fin g) = orange) \<and>
   (6 \<le> g \<longrightarrow> get_color (Fin g) = brown) \<and>
   (i < length ghis \<longrightarrow> color_column ghis ! i = get_color (ghis ! i)) \<and>
   get_color (Fin 1.999) = navy \<and> get_color (Fin 2.0) = lightblue \<and>
   get_color (Fin 3.999) = lightblue \<and> get_color (Fin 4.0) = orange \<and>
   get_color (Fin 5.999) = orange \<and> get_color (Fin 6.0) = brown"
  by (simp add: get_color_def color_column_def)

theorem get_color_bins_witness:
  "get_color (Fin 1.5) = navy \<and> get_color (Fin 2) = lightblue \<and>
   get_color (Fin 4) = orange \<and> get_color (Fin 6) = brown \<and>
   color_column [Fin 3.999] ! 0 = lightblue"
  using get_color_bins [of "1.5" 0 "[Fin 3.999]"]
    get_color_bins [of 2 0 "[]"] get_color_bins [of 4 0 "[]"] get_color_bins [of 6 0 "[]"]
  by simp

text \<open>
  C10. The classification is total: a GHI value that is in none of the three lower bins,
  a NaN value included, is classified brown.
\<close>

theorem get_color_total:
  "(\<not> fl_less g (Fin 2) \<and> \<not> (fl_le (Fin 2) g \<and> fl_less g (Fin 4)) \<and>
      \<not> (fl_le (Fin 4) g \<and> fl_less g (Fin 6)) \<longrightarrow> get_color g = brown) \<and>
   get_color NaN = brown \<and>
   \<not> fl_le (Fin 6) NaN \<and>
   get_color g \<in> {navy, lightblue, orange, brown}"
  by (cases g) (simp_all add: get_color_def)

theorem get_color_total_witness:
  "\<not> fl_less NaN (Fin 2) \<and> \<not> (fl_le (Fin 2) NaN \<and> fl_less NaN (Fin 4)) \<and>
   \<not> (fl_le (Fin 4) NaN \<and> fl_less NaN (Fin 6)) \<and> get_color NaN = brown"
  using get_color_total [of NaN] by simp

section \<open>Properties of the budget curve\<close>

text \<open>
  C2. Every analysis row whose date lies in the period from July 1 of year Y to June 30 of
  year Y+1, both ends included, for a Y from 2019 to 2022, has the budget value
  73.9 * 0.992 ^ (Y - 2019).
\<close>

theorem budget_in_period:
  assumes "plot_pr_evolution df0 start_date end_date fs = (Inr (), fs')"
    and "output_plot fs' = Some ch"
    and "r \<in> set (points ch)"
    and "Y \<in> {2019..2022}"
    and "to_datetime Y 7 1 \<le> Date r" and "Date r \<le> to_datetime (Y + 1) 6 30"
  shows "Budget_PR r = 73.9 * 0.992 ^ nat (Y - 2019)"
proof -
  have "budget_mask Y (Date r)"
    using assms(5,6) by (simp add: budget_mask_def)
  with assms(4) have "budget_at (Date r) = budget_value Y"
    by (rule budget_at_period)
  then show ?thesis
    using points_budget [OF assms(1,2,3)] by (simp add: budget_value_def)
qed

theorem budget_in_period_witness:
  "plot_pr_evolution [\<lparr>Date = to_datetime 2021 6 30, GHI = Fin 3, PR = Fin 70\<rparr>]
       (to_datetime 2019 7 1) (to_datetime 2022 3 24)
       \<lparr>output_csv = None, output_plot = None\<rparr> =
     (Inr (), \<lparr>output_csv = None, output_plot = Some
       \<lparr>points = [\<lparr>Date = 737971, GHI = Fin 3, PR = Fin 70, PR_MA30 = Fin 70,
                      Budget_PR = 73.3088, Color = lightblue\<rparr>],
          text_box = [(7, Fin 70), (30, Fin 70), (60, Fin 70)]\<rparr>\<rparr>) \<and>
   to_datetime 2020 7 1 \<le> (737971::int) \<and> (737971::int) \<le> to_datetime (2020 + 1) 6 30 \<and>
   Budget_PR \<lparr>Date = 737971, GHI = Fin 3, PR = Fin 70, PR_MA30 = Fin 70,
              Budget_PR = 73.3088, Color = lightblue\<rparr> = 73.9 * 0.992 ^ nat (2020 - 2019)"
proof -
  let ?r = "\<lparr>Date = 737971, GHI = Fin 3, PR = Fin 70, PR_MA30 = Fin 70,
             Budget_PR = 73.3088, Color = lightblue\<rparr>"
  let ?ch = "\<lparr>points = [?r], text_box = [(7, Fin 70), (30, Fin 70), (60, Fin 70)]\<rparr>"
  have run: "plot_pr_evolution [\<lparr>Date = to_datetime 2021 6 30, GHI = Fin 3, PR = Fin 70\<rparr>]
       (to_datetime 2019 7 1) (to_datetime 2022 3 24)
       \<lparr>output_csv = None, output_plot = None\<rparr> =
     (Inr (), \<lparr>output_csv = None, output_plot = Some ?ch\<rparr>)"
    by (simp add: plot_eval)
  have out: "output_plot \<lparr>output_csv = None, output_plot = Some ?ch\<rparr> = Some ?ch" by simp
  have mem: "?r \<in> set (points ?ch)" by simp
  have yr: "(2020::int) \<in> {2019..2022}" by simp
  have lo: "to_datetime 2020 7 1 \<le> Date ?r" by (simp add: to_datetime_values)
  have hi: "Date ?r \<le> to_datetime (2020 + 1) 6 30" by (simp add: to_datetime_values)
  note concl = budget_in_period [OF run out mem yr lo hi]
  from lo have lo': "to_datetime 2020 7 1 \<le> (737971::int)" by simp
  from hi have hi': "(737971::int) \<le> to_datetime (2020 + 1) 6 30" by simp
  show ?thesis
    by (intro conjI run lo' hi' concl)
qed

text \<open>
  C3, as stated: a row dated 2020-01-01 has the budget value 73.9 * 0.992 ^ 1. It has not:
  2020-01-01 lies in the period that starts on 2019-07-01, whose value is 73.9.
\<close>

theorem budget_2020_01_01_counterexample:
  "plot_pr_evolution [\<lparr>Date = to_datetime 2020 1 1, GHI = Fin 3, PR = Fin 70\<rparr>]
       (to_datetime 2019 7 1) (to_datetime 2022 3 24)
       \<lparr>output_csv = None, output_plot = None\<rparr> =
     (Inr (), \<lparr>output_csv = None, output_plot = Some
       \<lparr>points = [\<lparr>Date = 737425, GHI = Fin 3, PR = Fin 70, PR_MA30 = Fin 70,
                      Budget_PR = 73.9, Color = lightblue\<rparr>],
          text_box = [(7, Fin 70), (30, Fin 70), (60, Fin 70)]\<rparr>\<rparr>) \<and>
   (73.9::real) \<noteq> 73.9 * 0.992 ^ 1"
  by (simp add: plot_eval)

text \<open>
  C3, amended: an analysis row dated 2020-01-01 has the budget value 73.9, and so has a row
  dated 2019-07-01; the value 73.9 * 0.992 ^ 1, which is 73.3088, is that of the rows of
  the next period, from 2020-07-01 on.
\<close>

theorem budget_examples:
  assumes "plot_pr_evolution df0 start_date end_date fs = (Inr (), fs')"
    and "output_plot fs' = Some ch"
    and "r \<in> set (points ch)"
  shows "(Date r = to_datetime 2020 1 1 \<longrightarrow> Budget_PR r = 73.9) \<and>
         (Date r = to_datetime 2019 7 1 \<longrightarrow> Budget_PR r = 73.9) \<and>
         (Date r = to_datetime 2020 7 1 \<longrightarrow>
            Budget_PR r = 73.9 * 0.992 ^ 1 \<and> Budget_PR r = 73.3088)"
  using points_budget [OF assms]
  by (simp add: budget_at_def budget_mask_def budget_value_def to_datetime_values)

theorem budget_examples_witness:
  "plot_pr_evolution [\<lparr>Date = to_datetime 2020 1 1, GHI = Fin 3, PR = Fin 70\<rparr>]
       (to_datetime 2019 7 1) (to_datetime 2022 3 24)
       \<lparr>output_csv = None, output_plot = None\<rparr> =
     (Inr (), \<lparr>output_csv = None, output_plot = Some
       \<lparr>points = [\<lparr>Date = 737425, GHI = Fin 3, PR = Fin 70, PR_MA30 = Fin 70,
                      Budget_PR = 73.9, Color = lightblue\<rparr>],
          text_box = [(7, Fin 70), (30, Fin 70), (60, Fin 70)]\<rparr>\<rparr>) \<and>
   (737425::int) = to_datetime 2020 1 1 \<and>
   Budget_PR \<lparr>Date = 737425, GHI = Fin 3, PR = Fin 70, PR_MA30 = Fin 70,
              Budget_PR = 73.9, Color = lightblue\<rparr> = 73.9"
proof -
  let ?r = "\<lparr>Date = 737425, GHI = Fin 3, PR = Fin 70, PR_MA30 = Fin 70,
             Budget_PR = 73.9, Color = lightblue\<rparr>"
  let ?ch = "\<lparr>points = [?r], text_box = [(7, Fin 70), (30, Fin 70), (60, Fin 70)]\<rparr>"
  have run: "plot_pr_evolution [\<lparr>Date = to_datetime 2020 1 1, GHI = Fin 3, PR = Fin 70\<rparr>]
       (to_datetime 2019 7 1) (to_datetime 2022 3 24)
       \<lparr>output_csv = None, output_plot = None\<rparr> =
     (Inr (), \<lparr>output_csv = None, output_plot = Some ?ch\<rparr>)"
    by (simp add: plot_eval)
  have out: "output_plot \<lparr>output_csv = None, output_plot = Some ?ch\<rparr> = Some ?ch" by simp
  have mem: "?r \<in> set (points ?ch)" by simp
  have day: "(737425::int) = to_datetime 2020 1 1" by (simp add: to_datetime_values)
  have day': "Date ?r = to_datetime 2020 1 1" by (simp add: to_datetime_values)
  from budget_examples [OF run out mem] day' have concl: "Budget_PR ?r = 73.9"
    by (rule conjunct1 [THEN mp])
  show ?thesis
    by (intro conjI run day concl)
qed

text \<open>
  C4, as stated: a row dated after the last defined period keeps that period's value.
  It does not: the column is set to 73.9 in every row before the loop, and a row that no
  mask selects keeps 73.9, whatever the row before it holds.
\<close>

theorem budget_after_last_period_counterexample:
  "plot_pr_evolution [\<lparr>Date = to_datetime 2023 6 30, GHI = Fin 3, PR = Fin 70\<rparr>,
                      \<lparr>Date = to_datetime 2023 7 1, GHI = Fin 3, PR = Fin 70\<rparr>]
       (to_datetime 2019 7 1) (to_datetime 2023 12 31)
       \<lparr>output_csv = None, output_plot = None\<rparr> =
     (Inr (), \<lparr>output_csv = None, output_plot = Some
       \<lparr>points = [\<lparr>Date = 738701, GHI = Fin 3, PR = Fin 70, PR_MA30 = Fin 70,
                      Budget_PR = 73.9 * 0.992 ^ 3, Color = lightblue\<rparr>,
                     \<lparr>Date = 738702, GHI = Fin 3, PR = Fin 70, PR_MA30 = Fin 70,
                      Budget_PR = 73.9, Color = lightblue\<rparr>],
          text_box = [(7, Fin 70), (30, Fin 70), (60, Fin 70)]\<rparr>\<rparr>) \<and>
   (73.9::real) \<noteq> 73.9 * 0.992 ^ 3"
proof (intro conjI)
  show "(73.9::real) \<noteq> 73.9 * 0.992 ^ 3"
    by (simp add: power3_eq_cube)
qed (simp add: plot_eval)

text \<open>
  C4, amended: every analysis row whose date is covered by no defined annual period, before
  2019-07-01 or after 2023-06-30, has the budget value 73.9, the initial default.
\<close>

theorem budget_uncovered:
  assumes "plot_pr_evolution df0 start_date end_date fs = (Inr (), fs')"
    and "output_plot fs' = Some ch"
    and "r \<in> set (points ch)"
    and "\<forall>Y \<in> {2019..2022}. \<not> (to_datetime Y 7 1 \<le> Date r \<and> Date r \<le> to_datetime (Y + 1) 6 30)"
  shows "Budget_PR r = 73.9"
proof -
  from assms(4) have "\<forall>Y \<in> {2019..2022}. \<not> budget_mask Y (Date r)"
    by (simp add: budget_mask_def)
  then have "budget_at (Date r) = 73.9"
    by (rule budget_at_uncovered)
  then show ?thesis
    using points_budget [OF assms(1,2,3)] by simp
qed

theorem budget_uncovered_witness:
  "plot_pr_evolution [\<lparr>Date = to_datetime 2023 6 30, GHI = Fin 3, PR = Fin 70\<rparr>,
                      \<lparr>Date = to_datetime 2023 7 1, GHI = Fin 3, PR = Fin 70\<rparr>]
       (to_datetime 2019 7 1) (to_datetime 2023 12 31)
       \<lparr>output_csv = None, output_plot = None\<rparr> =
     (Inr (), \<lparr>output_csv = None, output_plot = Some
       \<lparr>points = [\<lparr>Date = 738701, GHI = Fin 3, PR = Fin 70, PR_MA30 = Fin 70,
                      Budget_PR = 73.9 * 0.992 ^ 3, Color = lightblue\<rparr>,
                     \<lparr>Date = 738702, GHI = Fin 3, PR = Fin 70, PR_MA30 = Fin 70,
                      Budget_PR = 73.9, Color = lightblue\<rparr>],
          text_box = [(7, Fin 70), (30, Fin 70), (60, Fin 70)]\<rparr>\<rparr>) \<and>
   to_datetime (2022 + 1) 6 30 < (738702::int) \<and>
   Budget_PR \<lparr>Date = 738702, GHI = Fin 3, PR = Fin 70, PR_MA30 = Fin 70,
              Budget_PR = 73.9, Color = lightblue\<rparr> = 73.9"
proof -
  let ?q = "\<lparr>Date = 738701, GHI = Fin 3, PR = Fin 70, PR_MA30 = Fin 70,
             Budget_PR = 73.9 * 0.992 ^ 3, Color = lightblue\<rparr>"
  let ?r = "\<lparr>Date = 738702, GHI = Fin 3, PR = Fin 70, PR_MA30 = Fin 70,
             Budget_PR = 73.9, Color = lightblue\<rparr>"
  let ?ch = "\<lparr>points = [?q, ?r], text_box = [(7, Fin 70), (30, Fin 70), (60, Fin 70)]\<rparr>"
  have run: "plot_pr_evolution [\<lparr>Date = to_datetime 2023 6 30, GHI = Fin 3, PR = Fin 70\<rparr>,
                      \<lparr>Date = to_datetime 2023 7 1, GHI = Fin 3, PR = Fin 70\<rparr>]
       (to_datetime 2019 7 1) (to_datetime 2023 12 31)
       \<lparr>output_csv = None, output_plot = None\<rparr> =
     (Inr (), \<lparr>output_csv = None, output_plot = Some ?ch\<rparr>)"
    by (simp add: plot_eval)
  have out: "output_plot \<lparr>output_csv = None, output_plot = Some ?ch\<rparr> = Some ?ch" by simp
  have mem: "?r \<in> set (points ?ch)" by simp
  have after: "to_datetime (2022 + 1) 6 30 < (738702::int)"
    by (simp add: to_datetime_values)
  have "\<not> (to_datetime Y 7 1 \<le> Date ?r \<and> Date ?r \<le> to_datetime (Y + 1) 6 30)"
    if "Y \<in> {2019..2022}" for Y
    using that [unfolded budget_years]
    by (elim disjE) (simp_all add: to_datetime_values)
  then have none: "\<forall>Y \<in> {2019..2022}.
      \<not> (to_datetime Y 7 1 \<le> Date ?r \<and> Date ?r \<le> to_datetime (Y + 1) 6 30)"
    by blast
  note concl = budget_uncovered [OF run out mem none]
  show ?thesis
    by (intro conjI run after concl)
qed

section \<open>Properties of the rolling mean\<close>

text \<open>
  C5, as stated: the rolling mean is never NaN for an in-range row. It is NaN when the
  trailing window holds no numeric PR value: a single in-range row whose PR cell is NaN
  (an empty cell of the PR file) has the rolling mean NaN.
\<close>

theorem rolling_mean_nan_counterexample:
  "plot_pr_evolution [\<lparr>Date = to_datetime 2021 1 1, GHI = Fin 3, PR = NaN\<rparr>]
       (to_datetime 2019 7 1) (to_datetime 2022 3 24)
       \<lparr>output_csv = None, output_plot = None\<rparr> =
     (Inr (), \<lparr>output_csv = None, output_plot = Some
       \<lparr>points = [\<lparr>Date = 737791, GHI = Fin 3, PR = NaN, PR_MA30 = NaN,
                      Budget_PR = 73.3088, Color = lightblue\<rparr>],
          text_box = [(7, NaN), (30, NaN), (60, NaN)]\<rparr>\<rparr>)"
  by (simp add: plot_eval)

text \<open>
  C5, amended: at the i-th in-range row the window is the trailing min(30, i+1) rows up to
  and including the row. When the PR values of the window are all numbers, the rolling mean
  is their arithmetic mean, a number; in general NaN values are skipped, and the rolling
  mean is NaN exactly when the window holds no number. In-range PR values 10, 20, 30 give
  the rolling means 10, 15, 20.
\<close>

theorem rolling_mean_window:
  assumes "plot_pr_evolution df0 start_date end_date fs = (Inr (), fs')"
    and "output_plot fs' = Some ch"
    and "i < length (points ch)"
  shows "rolling_window 30 (map PR (points ch)) i =
           map (\<lambda>j. PR (points ch ! j)) [Suc i - 30..<Suc i] \<and>
         length (rolling_window 30 (map PR (points ch)) i) = min 30 (Suc i) \<and>
         (rolling_window 30 (map PR (points ch)) i = map Fin ys \<longrightarrow>
            PR_MA30 (points ch ! i) = Fin (sum_list ys / real (min 30 (Suc i)))) \<and>
         (PR_MA30 (points ch ! i) = NaN \<longleftrightarrow>
            (\<forall>v \<in> set (rolling_window 30 (map PR (points ch)) i). v = NaN)) \<and>
         (PR_MA30 (points ch ! i) \<noteq> NaN \<longrightarrow>
            PR_MA30 (points ch ! i) =
              Fin (sum_list (observations (rolling_window 30 (map PR (points ch)) i)) /
                   real (length (observations (rolling_window 30 (map PR (points ch)) i)))))"
proof -
  let ?df = "in_range df0 start_date end_date"
  let ?vs = "map PR (points ch)"
  let ?win = "rolling_window 30 ?vs i"
  have pts: "points ch = with_columns ?df"
    using plot_pr_evolution_points [OF assms(1,2)] by (simp add: figure_def)
  have i: "i < length ?df"
    using assms(3) by (simp add: pts length_with_columns)
  have iv: "i < length ?vs"
    using assms(3) by simp
  have ma: "PR_MA30 (points ch ! i) =
      (if length (observations ?win) < 1 then NaN else mean_obs (observations ?win))"
    using PR_MA30_with_columns [OF i] rolling_mean_nth [OF iv, of 30 1] by (simp add: pts)
  have len: "length ?win = min 30 (Suc i)"
    using iv by (rule length_rolling_window)
  have "?win = map ((!) ?vs) [Suc i - 30..<Suc i]"
    using iv by (rule rolling_window_nths)
  also have "\<dots> = map (\<lambda>j. PR (points ch ! j)) [Suc i - 30..<Suc i]"
    using assms(3) by simp
  finally have win: "?win = map (\<lambda>j. PR (points ch ! j)) [Suc i - 30..<Suc i]" .
  have fin: "PR_MA30 (points ch ! i) = Fin (sum_list ys / real (min 30 (Suc i)))"
    if "?win = map Fin ys"
  proof -
    have obs: "observations ?win = ys"
      by (simp add: that observations_Fin)
    have "length ys = min 30 (Suc i)"
      using len by (simp add: that)
    then show ?thesis
      using ma by (auto simp add: obs mean_obs_def)
  qed
  have nan: "PR_MA30 (points ch ! i) = NaN \<longleftrightarrow> (\<forall>v \<in> set ?win. v = NaN)"
    using ma by (auto simp add: mean_obs_def observations_Nil_iff [symmetric])
  have num: "PR_MA30 (points ch ! i) =
      Fin (sum_list (observations ?win) / real (length (observations ?win)))"
    if "PR_MA30 (points ch ! i) \<noteq> NaN"
    using ma that by (auto simp add: mean_obs_def split: if_splits)
  show ?thesis
    using win len fin nan num by blast
qed

theorem rolling_mean_window_witness:
  "plot_pr_evolution [\<lparr>Date = 737791, GHI = Fin 3, PR = Fin 10\<rparr>,
                      \<lparr>Date = 737792, GHI = Fin 3, PR = Fin 20\<rparr>,
                      \<lparr>Date = 737793, GHI = Fin 3, PR = Fin 30\<rparr>]
       (to_datetime 2019 7 1) (to_datetime 2022 3 24)
       \<lparr>output_csv = None, output_plot = None\<rparr> =
     (Inr (), \<lparr>output_csv = None, output_plot = Some
       \<lparr>points = [\<lparr>Date = 737791, GHI = Fin 3, PR = Fin 10, PR_MA30 = Fin 10,
                      Budget_PR = 73.3088, Color = lightblue\<rparr>,
                   \<lparr>Date = 737792, GHI = Fin 3, PR = Fin 20, PR_MA30 = Fin 15,
                      Budget_PR = 73.3088, Color = lightblue\<rparr>,
                   \<lparr>Date = 737793, GHI = Fin 3, PR = Fin 30, PR_MA30 = Fin 20,
                      Budget_PR = 73.3088, Color = lightblue\<rparr>],
          text_box = [(7, Fin 20), (30, Fin 20), (60, Fin 20)]\<rparr>\<rparr>) \<and>
   rolling_window 30 [Fin 10, Fin 20, Fin 30] 2 = map Fin [10, 20, 30] \<and>
   PR_MA30 \<lparr>Date = 737793, GHI = Fin 3, PR = Fin 30, PR_MA30 = Fin 20,
            Budget_PR = 73.3088, Color = lightblue\<rparr> =
     Fin (sum_list [10, 20, 30] / real (min 30 (Suc 2)))"
proof -
  let ?r0 = "\<lparr>Date = 737791, GHI = Fin 3, PR = Fin 10, PR_MA30 = Fin 10,
              Budget_PR = 73.3088, Color = lightblue\<rparr>"
  let ?r1 = "\<lparr>Date = 737792, GHI = Fin 3, PR = Fin 20, PR_MA30 = Fin 15,
              Budget_PR = 73.3088, Color = lightblue\<rparr>"
  let ?r2 = "\<lparr>Date = 737793, GHI = Fin 3, PR = Fin 30, PR_MA30 = Fin 20,
              Budget_PR = 73.3088, Color = lightblue\<rparr>"
  let ?ch = "\<lparr>points = [?r0, ?r1, ?r2], text_box = [(7, Fin 20), (30, Fin 20), (60, Fin 20)]\<rparr>"
  have run: "plot_pr_evolution [\<lparr>Date = 737791, GHI = Fin 3, PR = Fin 10\<rparr>,
                      \<lparr>Date = 737792, GHI = Fin 3, PR = Fin 20\<rparr>,
                      \<lparr>Date = 737793, GHI = Fin 3, PR = Fin 30\<rparr>]
       (to_datetime 2019 7 1) (to_datetime 2022 3 24)
       \<lparr>output_csv = None, output_plot = None\<rparr> =
     (Inr (), \<lparr>output_csv = None, output_plot = Some ?ch\<rparr>)"
    by (simp add: plot_eval upt_rec_numeral)
  have out: "output_plot \<lparr>output_csv = None, output_plot = Some ?ch\<rparr> = Some ?ch" by simp
  have i: "2 < length (points ?ch)" by simp
  have win: "rolling_window 30 [Fin 10, Fin 20, Fin 30] 2 = map Fin [10, 20, 30]"
    by (simp add: rolling_window_def)
  have win': "rolling_window 30 (map PR (points ?ch)) 2 = map Fin [10, 20, 30]"
    by (simp add: rolling_window_def)
  from rolling_mean_window [OF run out i, of "[10, 20, 30]"] win'
  have "PR_MA30 (points ?ch ! 2) = Fin (sum_list [10, 20, 30] / real (min 30 (Suc 2)))"
    by blast
  then have concl: "PR_MA30 ?r2 = Fin (sum_list [10, 20, 30] / real (min 30 (Suc 2)))"
    by simp
  show ?thesis
    by (intro conjI run win concl)
qed

section \<open>The empty range\<close>

text \<open>
  C6. The analysis fails with the empty-range error (ValueError, line 81) if and only if no
  row of the table has its date between start_date and end_date, both included. The error
  reaches the caller: \<^verbatim>\<open>main\<close> ends with it. When it fails nothing is drawn or saved; when
  it does not fail it returns normally and the figure is saved.
\<close>

theorem empty_range_error:
  "(fst (plot_pr_evolution df0 start_date end_date fs) = Inl ValueError \<longleftrightarrow>
      (\<forall>r \<in> set df0. \<not> (start_date \<le> Date r \<and> Date r \<le> end_date))) \<and>
   (fst (plot_pr_evolution df0 start_date end_date fs) = Inl ValueError \<longrightarrow>
      snd (plot_pr_evolution df0 start_date end_date fs) = fs) \<and>
   (fst (plot_pr_evolution df0 start_date end_date fs) \<noteq> Inl ValueError \<longrightarrow>
      fst (plot_pr_evolution df0 start_date end_date fs) = Inr () \<and>
      output_plot (snd (plot_pr_evolution df0 start_date end_date fs)) \<noteq> None) \<and>
   (process_data pr_files ghi_files fs = (Inr df0, fs1) \<longrightarrow>
      main pr_files ghi_files start_date end_date fs =
        plot_pr_evolution df0 start_date end_date fs1)"
proof -
  let ?df = "filter (\<lambda>r. start_date \<le> Date r \<and> Date r \<le> end_date) df0"
  have empty: "?df = [] \<longleftrightarrow>
      (\<forall>r \<in> set df0. \<not> (start_date \<le> Date r \<and> Date r \<le> end_date))"
    by (simp add: filter_empty_conv)
  show ?thesis
  proof (cases "?df = []")
    case True
    then have "plot_pr_evolution df0 start_date end_date fs = (Inl ValueError, fs)"
      by (simp add: plot_pr_evolution_def)
    with True empty show ?thesis
      by (simp add: main_def)
  next
    case False
    then obtain fs' where "plot_pr_evolution df0 start_date end_date fs = (Inr (), fs')"
      and "output_plot fs' \<noteq> None"
      by (simp add: plot_pr_evolution_def Let_def)
    with False empty show ?thesis
      by (simp add: main_def)
  qed
qed

theorem empty_range_error_witness:
  "fst (plot_pr_evolution [\<lparr>Date = 737791, GHI = Fin 3, PR = Fin 70\<rparr>] 738156 738520
          \<lparr>output_csv = None, output_plot = None\<rparr>) = Inl ValueError \<and>
   snd (plot_pr_evolution [\<lparr>Date = 737791, GHI = Fin 3, PR = Fin 70\<rparr>] 738156 738520
          \<lparr>output_csv = None, output_plot = None\<rparr>) = \<lparr>output_csv = None, output_plot = None\<rparr> \<and>
   to_datetime 2021 1 1 = 737791 \<and> to_datetime 2022 1 1 = 738156 \<and>
   to_datetime 2022 12 31 = 738520"
  using empty_range_error [of "[\<lparr>Date = 737791, GHI = Fin 3, PR = Fin 70\<rparr>]" 738156 738520
      "\<lparr>output_csv = None, output_plot = None\<rparr>"]
  by (simp add: to_datetime_values)

section \<open>Properties of the recent-window averages\<close>

text \<open>
  C7. For each of the window sizes 7, 30 and 60 the text box holds the average PR of the
  in-range rows whose date is strictly greater than the latest in-range date minus the
  window size: the arithmetic mean of their PR values when these are numbers. The average
  of a window without rows is 0. (The row of the latest date lies in every window.)
\<close>

theorem recent_window_average:
  assumes "plot_pr_evolution df0 start_date end_date fs = (Inr (), fs')"
    and "output_plot fs' = Some ch"
  shows "text_box ch =
           map (\<lambda>period. (period,
                  avg_pr (filter (\<lambda>r. Max (set (map Date (points ch))) - period < Date r)
                            (points ch))))
               [7, 30, 60] \<and>
         avg_pr [] = Fin 0 \<and>
         (rows \<noteq> [] \<and> map PR rows = map Fin ys \<longrightarrow>
            avg_pr rows = Fin (sum_list ys / real (length ys))) \<and>
         (0 < period \<longrightarrow>
            filter (\<lambda>r. Max (set (map Date (points ch))) - period < Date r) (points ch) \<noteq> [])"
proof -
  let ?df = "in_range df0 start_date end_date"
  have ch: "ch = figure ?df"
    using assms by (rule plot_pr_evolution_points)
  have "?df \<noteq> []"
    using assms(1) by (simp add: plot_pr_evolution_Inr)
  then have ne: "points ch \<noteq> []"
    by (simp add: ch figure_def with_columns_Nil_iff)
  have box: "text_box ch =
           map (\<lambda>period. (period,
                  avg_pr (filter (\<lambda>r. Max (set (map Date (points ch))) - period < Date r)
                            (points ch))))
               [7, 30, 60]"
    unfolding ch by (rule figure_text_box)
  have zero: "avg_pr [] = Fin 0"
    by (simp add: avg_pr_def)
  show ?thesis
    using box zero avg_pr_numbers [of rows ys] recent_data_last [OF ne, of period] by blast
qed

theorem recent_window_average_witness:
  "plot_pr_evolution [\<lparr>Date = 737791, GHI = Fin 3, PR = Fin 10\<rparr>,
                      \<lparr>Date = 737801, GHI = Fin 3, PR = Fin 20\<rparr>,
                      \<lparr>Date = 737831, GHI = Fin 3, PR = Fin 30\<rparr>]
       (to_datetime 2019 7 1) (to_datetime 2022 3 24)
       \<lparr>output_csv = None, output_plot = None\<rparr> =
     (Inr (), \<lparr>output_csv = None, output_plot = Some
       \<lparr>points = [\<lparr>Date = 737791, GHI = Fin 3, PR = Fin 10, PR_MA30 = Fin 10,
                      Budget_PR = 73.3088, Color = lightblue\<rparr>,
                   \<lparr>Date = 737801, GHI = Fin 3, PR = Fin 20, PR_MA30 = Fin 15,
                      Budget_PR = 73.3088, Color = lightblue\<rparr>,
                   \<lparr>Date = 737831, GHI = Fin 3, PR = Fin 30, PR_MA30 = Fin 20,
                      Budget_PR = 73.3088, Color = lightblue\<rparr>],
          text_box = [(7, Fin 30), (30, Fin 30), (60, Fin 20)]\<rparr>\<rparr>) \<and>
   avg_pr [\<lparr>Date = 737791, GHI = Fin 3, PR = Fin 10, PR_MA30 = Fin 10,
              Budget_PR = 73.3088, Color = lightblue\<rparr>,
           \<lparr>Date = 737801, GHI = Fin 3, PR = Fin 20, PR_MA30 = Fin 15,
              Budget_PR = 73.3088, Color = lightblue\<rparr>,
           \<lparr>Date = 737831, GHI = Fin 3, PR = Fin 30, PR_MA30 = Fin 20,
              Budget_PR = 73.3088, Color = lightblue\<rparr>] =
     Fin (sum_list [10, 20, 30] / real (length [10, 20, 30 :: real]))"
proof -
  let ?r0 = "\<lparr>Date = 737791, GHI = Fin 3, PR = Fin 10, PR_MA30 = Fin 10,
              Budget_PR = 73.3088, Color = lightblue\<rparr>"
  let ?r1 = "\<lparr>Date = 737801, GHI = Fin 3, PR = Fin 20, PR_MA30 = Fin 15,
              Budget_PR = 73.3088, Color = lightblue\<rparr>"
  let ?r2 = "\<lparr>Date = 737831, GHI = Fin 3, PR = Fin 30, PR_MA30 = Fin 20,
              Budget_PR = 73.3088, Color = lightblue\<rparr>"
  let ?ch = "\<lparr>points = [?r0, ?r1, ?r2], text_box = [(7, Fin 30), (30, Fin 30), (60, Fin 20)]\<rparr>"
  have run: "plot_pr_evolution [\<lparr>Date = 737791, GHI = Fin 3, PR = Fin 10\<rparr>,
                      \<lparr>Date = 737801, GHI = Fin 3, PR = Fin 20\<rparr>,
                      \<lparr>Date = 737831, GHI = Fin 3, PR = Fin 30\<rparr>]
       (to_datetime 2019 7 1) (to_datetime 2022 3 24)
       \<lparr>output_csv = None, output_plot = None\<rparr> =
     (Inr (), \<lparr>output_csv = None, output_plot = Some ?ch\<rparr>)"
    by (simp add: plot_eval upt_rec_numeral)
  have out: "output_plot \<lparr>output_csv = None, output_plot = Some ?ch\<rparr> = Some ?ch" by simp
  have rows: "[?r0, ?r1, ?r2] \<noteq> [] \<and> map PR [?r0, ?r1, ?r2] = map Fin [10, 20, 30]"
    by simp
  from recent_window_average [OF run out, of "[?r0, ?r1, ?r2]" "[10, 20, 30]"] rows
  have concl: "avg_pr [?r0, ?r1, ?r2] =
      Fin (sum_list [10, 20, 30] / real (length [10, 20, 30 :: real]))"
    by blast
  show ?thesis
    by (intro conjI run concl)
qed

section \<open>Properties of the merge\<close>

text \<open>
  C1. For every pair of source indices, a date is in the merged table if and only if it is
  a key of the GHI index and of the PR index, and the dates of the table are strictly
  increasing, without duplicates. (When no date is common to the two indices no table
  results: line 69 raises KeyError.) With GHI dates 2021-01-01 to 2021-01-05 and PR dates
  2021-01-03 to 2021-01-07 the table has the rows of 2021-01-03, 2021-01-04 and 2021-01-05,
  in that order.
\<close>

theorem merge_by_date_intersection:
  "(case merge_by_date ghi_dict pr_dict of
      Inr tbl \<Rightarrow>
        (\<forall>d. d \<in> set (map Date tbl) \<longleftrightarrow> map_of ghi_dict d \<noteq> None \<and> map_of pr_dict d \<noteq> None) \<and>
        sorted_wrt (<) (map Date tbl) \<and> distinct (map Date tbl)
    | Inl e \<Rightarrow>
        e = KeyError \<and> \<not> (\<exists>d. map_of ghi_dict d \<noteq> None \<and> map_of pr_dict d \<noteq> None)) \<and>
   fst (process_data pr_files ghi_files fs) =
     merge_by_date (read_files ''Ghi'' ghi_files) (read_files ''Pr'' pr_files)"
proof -
  let ?K = "set (map fst ghi_dict) \<inter> set (map fst pr_dict)"
  have keys: "d \<in> ?K \<longleftrightarrow> map_of ghi_dict d \<noteq> None \<and> map_of pr_dict d \<noteq> None" for d
    by (simp only: map_of_keys) blast
  have pd: "fst (process_data pr_files ghi_files fs) =
     merge_by_date (read_files ''Ghi'' ghi_files) (read_files ''Pr'' pr_files)"
    by (simp add: process_data_def Let_def split: sum.splits)
  show ?thesis
  proof (cases "?K = {}")
    case True
    then have "merge_by_date ghi_dict pr_dict = Inl KeyError"
      using merge_by_date_dates [of ghi_dict pr_dict] by blast
    moreover have "\<not> (\<exists>d. map_of ghi_dict d \<noteq> None \<and> map_of pr_dict d \<noteq> None)"
      using True keys by blast
    ultimately show ?thesis
      using pd by simp
  next
    case False
    then obtain tbl where tbl: "merge_by_date ghi_dict pr_dict = Inr tbl"
      and dates: "map Date tbl = sorted_list_of_set ?K"
      using merge_by_date_dates [of ghi_dict pr_dict] by blast
    have "set (map Date tbl) = ?K"
      unfolding dates by simp
    then have mem: "\<forall>d. d \<in> set (map Date tbl) \<longleftrightarrow>
        map_of ghi_dict d \<noteq> None \<and> map_of pr_dict d \<noteq> None"
      using keys by blast
    have "sorted_wrt (<) (map Date tbl)" and "distinct (map Date tbl)"
      unfolding dates by simp_all
    with mem tbl pd show ?thesis
      by simp
  qed
qed

theorem merge_by_date_intersection_witness:
  "merge_by_date
     [(737793, (737793, Fin 3)), (737791, (737791, Fin 1)), (737795, (737795, Fin 5)),
      (737792, (737792, Fin 2)), (737794, (737794, Fin 4))]
     [(737797, (737797, Fin 77)), (737794, (737794, Fin 74)), (737793, (737793, Fin 73)),
      (737796, (737796, Fin 76)), (737795, (737795, Fin 75))] =
   Inr [\<lparr>Date = 737793, GHI = Fin 3, PR = Fin 73\<rparr>,
        \<lparr>Date = 737794, GHI = Fin 4, PR = Fin 74\<rparr>,
        \<lparr>Date = 737795, GHI = Fin 5, PR = Fin 75\<rparr>] \<and>
   sorted_wrt (<) (map Date [\<lparr>Date = 737793, GHI = Fin 3, PR = Fin 73\<rparr>,
        \<lparr>Date = 737794, GHI = Fin 4, PR = Fin 74\<rparr>,
        \<lparr>Date = 737795, GHI = Fin 5, PR = Fin 75\<rparr>]) \<and>
   to_datetime 2021 1 1 = 737791 \<and> to_datetime 2021 1 3 = 737793 \<and>
   to_datetime 2021 1 5 = 737795 \<and> to_datetime 2021 1 7 = 737797"
proof -
  let ?g = "[(737793, (737793, Fin 3)), (737791, (737791, Fin 1)), (737795, (737795, Fin 5)),
      (737792, (737792, Fin 2)), (737794, (737794, Fin 4))] :: source_index"
  let ?p = "[(737797, (737797, Fin 77)), (737794, (737794, Fin 74)), (737793, (737793, Fin 73)),
      (737796, (737796, Fin 76)), (737795, (737795, Fin 75))] :: source_index"
  let ?tbl = "[\<lparr>Date = 737793, GHI = Fin 3, PR = Fin 73\<rparr>,
        \<lparr>Date = 737794, GHI = Fin 4, PR = Fin 74\<rparr>,
        \<lparr>Date = 737795, GHI = Fin 5, PR = Fin 75\<rparr>]"
  have run: "merge_by_date ?g ?p = Inr ?tbl"
    by code_simp
  have srt: "sorted_wrt (<) (map Date ?tbl)"
    using merge_by_date_intersection [of ?g ?p] unfolding run by simp
  have days: "to_datetime 2021 1 1 = 737791" "to_datetime 2021 1 3 = 737793"
    "to_datetime 2021 1 5 = 737795" "to_datetime 2021 1 7 = 737797"
    by (simp_all add: to_datetime_def days_before_year_def days_before_month_def is_leap_def)
  show ?thesis
    by (intro conjI run srt days)
qed

section \<open>Outputs of an aborted run\<close>

text \<open>
  C9, as stated: a run that aborts with the empty-range error has written neither the merged
  table nor a chart. The merged table has been written: \<^verbatim>\<open>process_data\<close> writes it at line 70,
  before \<^verbatim>\<open>plot_pr_evolution\<close> is called. Here both sources hold the day 2021-01-01 and the
  requested range is the year 2022.
\<close>

theorem aborted_run_counterexample:
  "main
     [\<lparr>name_date = Some 737791, columns = [''Date'', ''Pr''],
       date_cells = [Some 737791], value_cells = [Fin 70]\<rparr>]
     [\<lparr>name_date = Some 737791, columns = [''Date'', ''Ghi''],
       date_cells = [Some 737791], value_cells = [Fin 3]\<rparr>]
     738156 738520 \<lparr>output_csv = None, output_plot = None\<rparr> =
   (Inl ValueError,
    \<lparr>output_csv = Some [\<lparr>Date = 737791, GHI = Fin 3, PR = Fin 70\<rparr>], output_plot = None\<rparr>)"
  by (simp add: read_eval plot_pr_evolution_def)

text \<open>
  C9, amended: a run that aborts with the empty-range error writes no chart; the merged
  table has been written to the output csv file by then, and none of its rows lies in the
  requested range. (A run that aborts with KeyError, no date being common to the two
  sources, writes nothing.)
\<close>

theorem aborted_run_outputs:
  assumes "main pr_files ghi_files start_date end_date fs = (Inl err, fs')"
  shows "output_plot fs' = output_plot fs \<and>
         (err = ValueError \<longrightarrow>
            (\<exists>df. fst (process_data pr_files ghi_files fs) = Inr df \<and>
                  output_csv fs' = Some df \<and>
                  (\<forall>r \<in> set df. \<not> (start_date \<le> Date r \<and> Date r \<le> end_date)))) \<and>
         (err = KeyError \<longrightarrow> fs' = fs)"
proof -
  have "in_range df start_date end_date = [] \<longleftrightarrow>
      (\<forall>r \<in> set df. \<not> (start_date \<le> Date r \<and> Date r \<le> end_date))" for df
    by (simp add: in_range_def filter_empty_conv)
  then show ?thesis
    using main_error [OF assms] by auto
qed

theorem aborted_run_outputs_witness:
  "main
     [\<lparr>name_date = Some 737791, columns = [''Date'', ''Pr''],
       date_cells = [Some 737791], value_cells = [Fin 70]\<rparr>]
     [\<lparr>name_date = Some 737791, columns = [''Date'', ''Ghi''],
       date_cells = [Some 737791], value_cells = [Fin 3]\<rparr>]
     738156 738520 \<lparr>output_csv = None, output_plot = None\<rparr> =
   (Inl ValueError,
    \<lparr>output_csv = Some [\<lparr>Date = 737791, GHI = Fin 3, PR = Fin 70\<rparr>], output_plot = None\<rparr>) \<and>
   output_plot \<lparr>output_csv = Some [\<lparr>Date = 737791, GHI = Fin 3, PR = Fin 70\<rparr>],
                output_plot = None\<rparr> =
     output_plot \<lparr>output_csv = None, output_plot = None\<rparr>"
proof -
  let ?pr = "[\<lparr>name_date = Some 737791, columns = [''Date'', ''Pr''],
       date_cells = [Some 737791], value_cells = [Fin 70]\<rparr>]"
  let ?ghi = "[\<lparr>name_date = Some 737791, columns = [''Date'', ''Ghi''],
       date_cells = [Some 737791], value_cells = [Fin 3]\<rparr>]"
  let ?fs' = "\<lparr>output_csv = Some [\<lparr>Date = 737791, GHI = Fin 3, PR = Fin 70\<rparr>],
              output_plot = None\<rparr>"
  have run: "main ?pr ?ghi 738156 738520 \<lparr>output_csv = None, output_plot = None\<rparr> =
      (Inl ValueError, ?fs')"
    by (simp add: read_eval plot_pr_evolution_def)
  from aborted_run_outputs [OF run]
  have concl: "output_plot ?fs' = output_plot \<lparr>output_csv = None, output_plot = None\<rparr>"
    by (rule conjunct1)
  show ?thesis
    by (intro conjI run concl)
qed

end
